theory Spec2Isabelle
  imports Main
begin

section \<open>Records of the feed and JavaScript values\<close>

text \<open>
  The program is a browser script in two variants: \<^verbatim>\<open>js/script.js\<close> (date selector,
  stored record set) and an earlier variant without the selector, whose definitions carry
  the suffix \<open>0\<close> below. An element of the feed is a JSON object whose fields are read
  as \<^verbatim>\<open>item.date\<close>, \<^verbatim>\<open>item.title\<close>, and so on: each field is a string or is
  missing (\<^verbatim>\<open>undefined\<close>, here \<open>None\<close>).
\<close>

record apod_item =
  date :: "string option"
  title :: "string option"
  explanation :: "string option"
  media_type :: "string option"
  url :: "string option"
  hdurl :: "string option"
  thumbnail_url :: "string option"

text \<open>
  A condition such as \<^verbatim>\<open>if (item.url)\<close> tests JavaScript truthiness: \<^verbatim>\<open>undefined\<close>
  and the empty string are falsy, every other string is truthy.
\<close>

fun truthy :: "string option \<Rightarrow> bool" where
  "truthy None = False"
| "truthy (Some s) = (s \<noteq> [])"

text \<open>\<^verbatim>\<open>a || b\<close>: the left operand when it is truthy, the right one otherwise.\<close>

definition js_or :: "string option \<Rightarrow> string option \<Rightarrow> string option" where
  "js_or a b = (if truthy a then a else b)"

text \<open>
  The string a value becomes when it is assigned to a string-valued property of an
  element (\<^verbatim>\<open>a.href = item.url\<close>) or spliced into a template literal.
\<close>

fun js_string :: "string option \<Rightarrow> string" where
  "js_string None = ''undefined''"
| "js_string (Some s) = s"

text \<open>
  Strings are byte strings; the few characters of the script outside ASCII are written
  as their UTF-8 bytes.
\<close>

definition emdash :: string where
  "emdash = [CHR 0xE2, CHR 0x80, CHR 0x94]"

definition ellipsis :: string where
  "ellipsis = [CHR 0xE2, CHR 0x80, CHR 0xA6]"

definition icon_arrows :: string where
  "icon_arrows = [CHR 0xF0, CHR 0x9F, CHR 0x94, CHR 0x84]"

definition icon_telescope :: string where
  "icon_telescope = [CHR 0xF0, CHR 0x9F, CHR 0x94, CHR 0xAD]"

section \<open>What the script takes from its host\<close>

text \<open>
  An exception is a value. The script itself throws in \<open>fetchCdnJson\<close> only; the other
  sources of exceptions are a property access on an element that
  \<^verbatim>\<open>document.getElementById\<close> did not find (\<open>TypeError\<close>), the call of a function
  that is declared nowhere (\<open>ReferenceError\<close>), and whatever a helper throws itself.
\<close>

datatype error =
    FetchRejected
  | NetworkError nat
  | ParseError
  | NotAnArray
  | TypeError
  | ReferenceError
  | HelperError

text \<open>
  \<open>toLocaleDateString h s\<close> stands for
  \<^verbatim>\<open>new Date(s).toLocaleDateString('en-US', {year:'numeric', month:'long', day:'numeric'})\<close>
  of the browser, and \<open>localeCompare h a b\<close> for \<^verbatim>\<open>a.localeCompare(b)\<close>, the collation
  of the browser. \<open>getYouTubeThumbnail\<close> and \<open>getYouTubeEmbedUrl\<close> are called by
  \<open>openModal\<close> in both variants and defined in neither file. They are fields of the host,
  functions of \<^verbatim>\<open>item.url\<close> that return a string or a falsy value, or throw, so that
  what does not depend on them is stated for every host; \<open>script_host\<close> below gives them
  as the source files leave them.
\<close>

record host =
  toLocaleDateString :: "string \<Rightarrow> string"
  localeCompare :: "string \<Rightarrow> string \<Rightarrow> int"
  getYouTubeThumbnail :: "string option \<Rightarrow> error + string option"
  getYouTubeEmbedUrl :: "string option \<Rightarrow> error + string option"

text \<open>\<^verbatim>\<open>formatDate(dateString)\<close>: the empty string for a falsy argument.\<close>

fun formatDate :: "host \<Rightarrow> string option \<Rightarrow> string" where
  "formatDate h None = []"
| "formatDate h (Some dateString) =
     (if dateString = [] then [] else toLocaleDateString h (dateString @ ''T00:00:00''))"

section \<open>The feed loader\<close>

text \<open>
  What \<^verbatim>\<open>fetch(url)\<close> and \<^verbatim>\<open>resp.json()\<close> can deliver: the request is
  rejected, or there is a response with a status and a body; the body is not JSON, or
  it parses to an array of records, or to some other value. \<^verbatim>\<open>resp.ok\<close> is true for
  the statuses 200 to 299.
\<close>

datatype json = JArray "apod_item list" | JOther

datatype body = Unparseable | Parsed json

datatype net = Rejected | Response nat body

definition ok :: "nat \<Rightarrow> bool" where
  "ok status = (200 \<le> status \<and> status \<le> 299)"

fun fetchCdnJson :: "net \<Rightarrow> error + apod_item list" where
  "fetchCdnJson Rejected = Inl FetchRejected"
| "fetchCdnJson (Response status b) =
     (if \<not> ok status then Inl (NetworkError status)
      else case b of
             Unparseable \<Rightarrow> Inl ParseError
           | Parsed (JArray data) \<Rightarrow> Inr data
           | Parsed JOther \<Rightarrow> Inl NotAnArray)"

text \<open>
  The three failure conditions as the specification words them, each a property of the
  response; a rejected request has no response, hence no status, body or parsed value.
\<close>

fun status_not_2xx :: "net \<Rightarrow> bool" where
  "status_not_2xx Rejected = False"
| "status_not_2xx (Response status b) = (\<not> (200 \<le> status \<and> status \<le> 299))"

fun body_not_parseable :: "net \<Rightarrow> bool" where
  "body_not_parseable (Response status Unparseable) = True"
| "body_not_parseable _ = False"

fun top_level_not_sequence :: "net \<Rightarrow> bool" where
  "top_level_not_sequence (Response status (Parsed JOther)) = True"
| "top_level_not_sequence _ = False"

section \<open>Filtering and the date selector\<close>

text \<open>
  Both the click handler of the fetch button and the change handler of the date selector
  compute
  \<^verbatim>\<open>selectedDate ? allItems.filter(item => item.date === selectedDate) : allItems\<close>,
  with \<^verbatim>\<open>selectedDate = dateSelector.value\<close>, always a string.
\<close>

definition itemsToDisplay :: "string \<Rightarrow> apod_item list \<Rightarrow> apod_item list" where
  "itemsToDisplay selectedDate items =
     (if selectedDate \<noteq> [] then filter (\<lambda>item. date item = Some selectedDate) items
      else items)"

text \<open>
  The comparison of two strings character by character. Every collation orders two dates
  of the form \<^verbatim>\<open>YYYY-MM-DD\<close> this way, since they differ first at a digit; it is the
  collation of the sample host below and of no use elsewhere.
\<close>

fun codepoint_compare :: "string \<Rightarrow> string \<Rightarrow> int" where
  "codepoint_compare [] [] = 0"
| "codepoint_compare [] (y # ys) = - 1"
| "codepoint_compare (x # xs) [] = 1"
| "codepoint_compare (x # xs) (y # ys) =
     (if (of_char x :: nat) < of_char y then - 1
      else if (of_char y :: nat) < of_char x then 1
      else codepoint_compare xs ys)"

text \<open>
  \<^verbatim>\<open>array.sort(compare)\<close> is a stable sort: \<open>a\<close> stays before \<open>b\<close> unless
  \<open>compare a b\<close> is positive.
\<close>

fun sort_insert :: "('a \<Rightarrow> 'a \<Rightarrow> int) \<Rightarrow> 'a \<Rightarrow> 'a list \<Rightarrow> 'a list" where
  "sort_insert compare a [] = [a]"
| "sort_insert compare a (b # bs) =
     (if 0 < compare a b then b # sort_insert compare a bs else a # b # bs)"

fun array_sort :: "('a \<Rightarrow> 'a \<Rightarrow> int) \<Rightarrow> 'a list \<Rightarrow> 'a list" where
  "array_sort compare [] = []"
| "array_sort compare (a # as) = sort_insert compare a (array_sort compare as)"

text \<open>
  The local \<^verbatim>\<open>dates\<close> of \<open>populateDateSelector\<close>:
  \<^verbatim>\<open>items.map(item => item.date).filter(date => date)\<close>, then
  \<^verbatim>\<open>dates.sort((a, b) => b.localeCompare(a))\<close>.
\<close>

fun truthy_strings :: "string option list \<Rightarrow> string list" where
  "truthy_strings [] = []"
| "truthy_strings (None # vs) = truthy_strings vs"
| "truthy_strings (Some s # vs) = (if s \<noteq> [] then s # truthy_strings vs else truthy_strings vs)"

definition dates :: "host \<Rightarrow> apod_item list \<Rightarrow> string list" where
  "dates h items =
     array_sort (\<lambda>a b. localeCompare h b a) (truthy_strings (map date items))"

section \<open>Elements\<close>

text \<open>
  An element is its tag, the properties and attributes the script sets on it (in the
  order of the assignments, under the names the script uses) and its children. Setting
  \<^verbatim>\<open>textContent\<close> to a non-empty string leaves one text child, to the empty string
  none.
\<close>

datatype node = Text string | El string "(string \<times> string) list" "node list"

definition text_children :: "string \<Rightarrow> node list" where
  "text_children s = (if s = [] then [] else [Text s])"

fun tags :: "node \<Rightarrow> string list" where
  "tags (Text s) = []"
| "tags (El tag props children) = tag # concat (map tags children)"

definition loading_placeholder :: node where
  "loading_placeholder =
     El ''div'' [(''class'', ''placeholder'')]
       [El ''div'' [(''class'', ''placeholder-icon'')] [Text icon_arrows],
        El ''p'' [] [Text (''Loading space photos'' @ ellipsis)]]"

definition error_placeholder :: node where
  "error_placeholder =
     El ''div'' [(''class'', ''placeholder'')]
       [El ''p'' [] [Text ''Error loading images. Check the console for details.'']]"

definition no_items_placeholder :: node where
  "no_items_placeholder =
     El ''div'' [(''className'', ''placeholder'')]
       [El ''div'' [(''class'', ''placeholder-icon'')] [Text icon_telescope],
        El ''p'' [] [Text ''No items found.'']]"

section \<open>Cards\<close>

text \<open>
  \<open>createGalleryItem\<close> of \<^verbatim>\<open>js/script.js\<close>. The media part is the chain
  \<^verbatim>\<open>if (item.media_type === 'image' && item.url) .. else if (item.url) ..\<close>, the
  inner test being \<^verbatim>\<open>if (item.thumbnail_url)\<close>; it appends at most one child.
\<close>

definition lazy_img :: "string \<Rightarrow> string \<Rightarrow> node" where
  "lazy_img src alt = El ''img'' [(''src'', src), (''alt'', alt), (''loading'', ''lazy'')] []"

definition blank_link :: "string \<Rightarrow> (string \<times> string) list \<Rightarrow> node list \<Rightarrow> node" where
  "blank_link href extra children =
     El ''a'' ([(''href'', href), (''target'', ''_blank''), (''rel'', ''noopener noreferrer'')] @ extra)
       children"

definition card_title :: "apod_item \<Rightarrow> string" where
  "card_title item = (if truthy (title item) then js_string (title item) else ''Untitled'')"

definition card_media :: "apod_item \<Rightarrow> node list" where
  "card_media item =
     (if media_type item = Some ''image'' \<and> truthy (url item) then
        [lazy_img (js_string (url item)) (card_title item)]
      else if truthy (url item) then
        (if truthy (thumbnail_url item) then
           [blank_link (js_string (url item)) []
              [lazy_img (js_string (thumbnail_url item)) (card_title item)]]
         else
           [blank_link (js_string (url item)) [] [El ''span'' [] [Text ''Open'']]])
      else [])"

definition wrapper_props :: "apod_item \<Rightarrow> (string \<times> string) list" where
  "wrapper_props item =
     [(''className'', ''gallery-item''), (''tabIndex'', ''0''), (''role'', ''button''),
      (''aria-label'',
         js_string (js_or (title item) (Some ''Item'')) @ '' '' @ emdash @ '' ''
         @ js_string (js_or (date item) (Some [])) @ '' '' @ emdash
         @ '' Press Enter to open details'')]"

definition createGalleryItem :: "host \<Rightarrow> apod_item \<Rightarrow> node" where
  "createGalleryItem h item =
     El ''div'' (wrapper_props item)
       (card_media item
        @ [El ''h3'' [(''className'', ''gallery-item-title'')] [Text (card_title item)],
           El ''p'' [(''className'', ''gallery-item-date'')]
             (text_children (formatDate h (date item)))])"

text \<open>
  \<open>createGalleryItem\<close> of the variant without date selector: one paragraph with title
  and raw date, and the media child inserted before it.
\<close>

definition createGalleryItem0 :: "apod_item \<Rightarrow> node" where
  "createGalleryItem0 item =
     El ''div'' (wrapper_props item)
       (card_media item
        @ [El ''p'' []
             [Text (card_title item @ '' '' @ emdash @ '' ''
                    @ (if truthy (date item) then js_string (date item) else []))]])"

section \<open>The page\<close>

text \<open>
  The state of a page session of \<^verbatim>\<open>js/script.js\<close>: the global \<open>allItems\<close>, what the
  script reads and writes of the elements it looks up, and a counter of the calls of
  \<^verbatim>\<open>fetch\<close>. The elements of the modal are looked up when the script loads and may be
  \<^verbatim>\<open>null\<close> (\<open>None\<close>): \<open>modal\<close> holds the value of its \<^verbatim>\<open>aria-hidden\<close> attribute
  (\<open>Some None\<close> when the attribute is not set), \<open>modalMedia\<close> its children, the three
  text elements their \<^verbatim>\<open>textContent\<close>. The handlers of the fetch button and of the
  selector exist only when \<open>init\<close> found \<open>getImageBtn\<close>, \<open>gallery\<close> and
  \<open>dateSelector\<close>, so these are not optional. The fact panel is not part of the state.
\<close>

record page =
  allItems :: "apod_item list"
  gallery :: "node list"
  dateSelector_options :: "(string \<times> string) list"
  dateSelector_value :: string
  dateSelector_disabled :: bool
  getImageBtn_disabled :: bool
  getImageBtn_text :: string
  modal :: "string option option"
  modalMedia :: "node list option"
  modalTitle :: "string option"
  modalDate :: "string option"
  modalExplanation :: "string option"
  modalCloseBtn :: bool
  modalOverlay :: bool
  activeElement :: "string option"
  fetches :: nat

text \<open>
  A statement runs on the page and may throw; the page it leaves behind is kept in both
  cases. \<open>seq\<close> runs the second statement only when the first did not throw.
\<close>

type_synonym stmt = "page \<Rightarrow> error option \<times> page"

definition skip :: stmt where
  "skip s = (None, s)"

definition seq :: "stmt \<Rightarrow> stmt \<Rightarrow> stmt" where
  "seq f g s = (case f s of (None, s') \<Rightarrow> g s' | (Some e, s') \<Rightarrow> (Some e, s'))"

definition throw :: "error \<Rightarrow> stmt" where
  "throw e s = (Some e, s)"

subsection \<open>Gallery and selector\<close>

definition renderGallery :: "host \<Rightarrow> apod_item list \<Rightarrow> page \<Rightarrow> page" where
  "renderGallery h items s =
     (if items = [] then s\<lparr>gallery := [no_items_placeholder]\<rparr>
      else s\<lparr>gallery := map (createGalleryItem h) items\<rparr>)"

text \<open>
  \<open>populateDateSelector\<close> replaces the options by the single option \<^verbatim>\<open>All dates\<close> of
  value \<^verbatim>\<open>""\<close>, which thereby becomes the selected one, and appends one option for
  each element of \<open>dates\<close>.
\<close>

definition populateDateSelector :: "host \<Rightarrow> apod_item list \<Rightarrow> page \<Rightarrow> page" where
  "populateDateSelector h items s =
     s\<lparr>dateSelector_options :=
         ([], ''All dates'') # map (\<lambda>d. (d, formatDate h (Some d))) (dates h items),
       dateSelector_value := []\<rparr>"

text \<open>The options the selector offers beyond the first, fixed one.\<close>

definition availableDates :: "page \<Rightarrow> string list" where
  "availableDates s = map fst (tl (dateSelector_options s))"

subsection \<open>The fetch button\<close>

text \<open>
  The \<^verbatim>\<open>try\<close> block of the click handler; the response of the network is used only
  when the handler fetches.
\<close>

definition show_selected :: "host \<Rightarrow> page \<Rightarrow> page" where
  "show_selected h s = renderGallery h (itemsToDisplay (dateSelector_value s) (allItems s)) s"

definition click_try :: "host \<Rightarrow> net \<Rightarrow> stmt" where
  "click_try h resp s =
     (let s1 = s\<lparr>getImageBtn_disabled := True, dateSelector_disabled := True,
                  getImageBtn_text := ''Loading...'', gallery := [loading_placeholder]\<rparr>
      in if allItems s1 = [] then
           (case fetchCdnJson resp of
              Inl e \<Rightarrow> (Some e, s1\<lparr>fetches := fetches s1 + 1\<rparr>)
            | Inr data \<Rightarrow>
                (None, show_selected h
                         (populateDateSelector h data
                            (s1\<lparr>fetches := fetches s1 + 1, allItems := data\<rparr>))))
         else (None, show_selected h s1))"

definition getImageBtn_click :: "host \<Rightarrow> net \<Rightarrow> page \<Rightarrow> page" where
  "getImageBtn_click h resp s =
     (let s2 = (case click_try h resp s of
                  (None, s') \<Rightarrow> s'
                | (Some e, s') \<Rightarrow> s'\<lparr>gallery := [error_placeholder]\<rparr>)
      in s2\<lparr>getImageBtn_disabled := False, dateSelector_disabled := False,
            getImageBtn_text := ''Get Space Images''\<rparr>)"

text \<open>The change handler of the selector; the browser has set the value before.\<close>

definition dateSelector_change :: "host \<Rightarrow> page \<Rightarrow> page" where
  "dateSelector_change h s = (if allItems s \<noteq> [] then show_selected h s else s)"

text \<open>\<open>loadDataAndPopulateDates\<close>, called once by \<open>init\<close>.\<close>

definition loadDataAndPopulateDates :: "host \<Rightarrow> net \<Rightarrow> page \<Rightarrow> page" where
  "loadDataAndPopulateDates h resp s =
     (let s1 = s\<lparr>dateSelector_disabled := True, fetches := fetches s + 1\<rparr>
      in case fetchCdnJson resp of
           Inl e \<Rightarrow> s1\<lparr>dateSelector_disabled := False\<rparr>
         | Inr data \<Rightarrow>
             (populateDateSelector h data (s1\<lparr>allItems := data\<rparr>))\<lparr>dateSelector_disabled := False\<rparr>)"

subsection \<open>The variant without date selector\<close>




section \<open>The modal\<close>

text \<open>
  Assignments to the elements of the modal. On an element that is \<^verbatim>\<open>null\<close> the
  assignment throws a \<open>TypeError\<close>.
\<close>

definition set_modalMedia_innerHTML_empty :: stmt where
  "set_modalMedia_innerHTML_empty s =
     (case modalMedia s of
        None \<Rightarrow> (Some TypeError, s)
      | Some children \<Rightarrow> (None, s\<lparr>modalMedia := Some []\<rparr>))"

definition modalMedia_appendChild :: "node \<Rightarrow> stmt" where
  "modalMedia_appendChild n s =
     (case modalMedia s of
        None \<Rightarrow> (Some TypeError, s)
      | Some children \<Rightarrow> (None, s\<lparr>modalMedia := Some (children @ [n])\<rparr>))"

definition set_modalTitle :: "string \<Rightarrow> stmt" where
  "set_modalTitle t s =
     (case modalTitle s of
        None \<Rightarrow> (Some TypeError, s)
      | Some old \<Rightarrow> (None, s\<lparr>modalTitle := Some t\<rparr>))"

definition set_modalDate :: "string \<Rightarrow> stmt" where
  "set_modalDate t s =
     (case modalDate s of
        None \<Rightarrow> (Some TypeError, s)
      | Some old \<Rightarrow> (None, s\<lparr>modalDate := Some t\<rparr>))"

definition set_modalExplanation :: "string \<Rightarrow> stmt" where
  "set_modalExplanation t s =
     (case modalExplanation s of
        None \<Rightarrow> (Some TypeError, s)
      | Some old \<Rightarrow> (None, s\<lparr>modalExplanation := Some t\<rparr>))"

definition set_aria_hidden :: "string \<Rightarrow> stmt" where
  "set_aria_hidden v s =
     (case modal s of
        None \<Rightarrow> (Some TypeError, s)
      | Some old \<Rightarrow> (None, s\<lparr>modal := Some (Some v)\<rparr>))"

definition focus_modalCloseBtn :: stmt where
  "focus_modalCloseBtn s =
     (if modalCloseBtn s then (None, s\<lparr>activeElement := Some ''modalClose''\<rparr>) else (None, s))"

text \<open>The elements of the video branch of \<open>openModal\<close>.\<close>

definition video_thumb :: "apod_item \<Rightarrow> string \<Rightarrow> node" where
  "video_thumb item thumbSrc =
     lazy_img thumbSrc
       (if truthy (title item) then js_string (title item) @ '' (video thumbnail)''
        else ''Video thumbnail'')"

definition no_thumbnail_message :: node where
  "no_thumbnail_message = El ''p'' [] [Text ''Video (no thumbnail available).'']"

definition playBtn :: node where
  "playBtn = El ''button'' [(''style.marginRight'', ''10px'')] [Text ''Play inline'']"

definition openLink :: "apod_item \<Rightarrow> node" where
  "openLink item =
     blank_link (js_string (url item)) [(''className'', ''video-open-link'')]
       [Text ''Open video in new tab'']"

definition controls :: "apod_item \<Rightarrow> string option \<Rightarrow> node" where
  "controls item embedUrl =
     El ''div'' [(''style.marginTop'', ''10px'')]
       ((if truthy embedUrl then [playBtn] else []) @ [openLink item])"

text \<open>
  \<^verbatim>\<open>const thumbSrc = item.thumbnail_url || getYouTubeThumbnail(item.url)\<close>: the helper
  is called only when the record has no truthy \<open>thumbnail_url\<close>.
\<close>

definition thumbSrc :: "host \<Rightarrow> apod_item \<Rightarrow> error + string option" where
  "thumbSrc h item =
     (if truthy (thumbnail_url item) then Inr (thumbnail_url item)
      else getYouTubeThumbnail h (url item))"

definition video_media :: "host \<Rightarrow> apod_item \<Rightarrow> stmt" where
  "video_media h item =
     (case thumbSrc h item of
        Inl e \<Rightarrow> throw e
      | Inr src \<Rightarrow>
          seq (modalMedia_appendChild
                 (if truthy src then video_thumb item (js_string src) else no_thumbnail_message))
              (case getYouTubeEmbedUrl h (url item) of
                 Inl e \<Rightarrow> throw e
               | Inr embedUrl \<Rightarrow> modalMedia_appendChild (controls item embedUrl)))"

definition modal_media :: "host \<Rightarrow> apod_item \<Rightarrow> stmt" where
  "modal_media h item =
     (if media_type item = Some ''image'' \<and> (truthy (hdurl item) \<or> truthy (url item)) then
        modalMedia_appendChild
          (lazy_img (js_string (js_or (hdurl item) (url item)))
                    (js_string (js_or (title item) (Some ''Image''))))
      else if media_type item = Some ''video'' then video_media h item
      else if truthy (url item) then
        modalMedia_appendChild (blank_link (js_string (url item)) [] [Text ''Open media''])
      else skip)"

definition openModal :: "host \<Rightarrow> apod_item \<Rightarrow> stmt" where
  "openModal h item s =
     (if modal s = None then (None, s)
      else
        seq set_modalMedia_innerHTML_empty
       (seq (set_modalTitle (js_string (js_or (title item) (Some ''Untitled''))))
       (seq (set_modalDate (formatDate h (date item)))
       (seq (set_modalExplanation (js_string (js_or (explanation item) (Some []))))
       (seq (modal_media h item)
       (seq (set_aria_hidden ''false'')
            focus_modalCloseBtn))))) s)"

text \<open>
  The click listener of the \<^verbatim>\<open>Play inline\<close> button, for the embed URL and the record
  it was created with.
\<close>

definition video_embed :: "string \<Rightarrow> apod_item \<Rightarrow> node" where
  "video_embed embedUrl item =
     El ''iframe''
       [(''width'', ''853''), (''height'', ''480''), (''src'', embedUrl),
        (''title'', js_string (js_or (title item) (Some ''Video''))),
        (''frameBorder'', ''0''),
        (''allow'', ''accelerometer; autoplay; clipboard-write; encrypted-media; gyroscope; picture-in-picture; web-share''),
        (''referrerPolicy'', ''strict-origin-when-cross-origin''),
        (''allowFullscreen'', ''true''), (''loading'', ''lazy''),
        (''className'', ''video-embed'')] []"

definition playBtn_click :: "string \<Rightarrow> apod_item \<Rightarrow> stmt" where
  "playBtn_click embedUrl item =
     seq set_modalMedia_innerHTML_empty (modalMedia_appendChild (video_embed embedUrl item))"

text \<open>\<open>closeModal\<close> tests both elements it touches, so it never throws.\<close>

definition closeModal :: "page \<Rightarrow> page" where
  "closeModal s =
     (if modal s = None then s
      else let s1 = s\<lparr>modal := Some (Some ''true'')\<rparr>
           in if modalMedia s1 \<noteq> None then s1\<lparr>modalMedia := Some []\<rparr> else s1)"

text \<open>
  The three listeners that close the modal. The first two are attached only when their
  element exists; the third is the \<^verbatim>\<open>keydown\<close> listener of the window.
\<close>

definition modalCloseBtn_click :: "page \<Rightarrow> page" where
  "modalCloseBtn_click s = (if modalCloseBtn s then closeModal s else s)"

definition modalOverlay_click :: "page \<Rightarrow> page" where
  "modalOverlay_click s = (if modalOverlay s then closeModal s else s)"

definition window_keydown :: "string \<Rightarrow> page \<Rightarrow> page" where
  "window_keydown key s =
     (if key = ''Escape'' \<and> modal s \<noteq> None \<and> modal s = Some (Some ''false'')
      then closeModal s else s)"

text \<open>
  The listeners of a card: a click or key press whose target lies inside a link of the
  card is left to the link.
\<close>

definition wrapper_click :: "host \<Rightarrow> bool \<Rightarrow> apod_item \<Rightarrow> stmt" where
  "wrapper_click h target_in_link item = (if target_in_link then skip else openModal h item)"

definition wrapper_keydown :: "host \<Rightarrow> string \<Rightarrow> bool \<Rightarrow> apod_item \<Rightarrow> stmt" where
  "wrapper_keydown h key focus_in_link item =
     (if key = ''Enter'' \<or> key = '' '' then
        (if focus_in_link then skip else openModal h item)
      else skip)"

section \<open>Events\<close>

text \<open>
  What one event does to the page. An exception that leaves a listener ends that listener
  and nothing else. \<open>ClickFetch resp\<close> is a click on the fetch button together with the
  settling of the fetch that the handler awaits, with nothing happening in between; the
  session in which other events come in between is \<open>occur\<close> below.
\<close>

datatype event =
    ClickFetch net
  | SelectDate string
  | ClickCard bool apod_item
  | KeyCard string bool apod_item
  | ClickPlay string apod_item
  | ClickClose
  | ClickOverlay
  | KeyDown string

fun step :: "host \<Rightarrow> event \<Rightarrow> page \<Rightarrow> page" where
  "step h (ClickFetch resp) s = getImageBtn_click h resp s"
| "step h (SelectDate d) s = dateSelector_change h (s\<lparr>dateSelector_value := d\<rparr>)"
| "step h (ClickCard target_in_link item) s = snd (wrapper_click h target_in_link item s)"
| "step h (KeyCard key focus_in_link item) s = snd (wrapper_keydown h key focus_in_link item s)"
| "step h (ClickPlay embedUrl item) s = snd (playBtn_click embedUrl item s)"
| "step h ClickClose s = modalCloseBtn_click s"
| "step h ClickOverlay s = modalOverlay_click s"
| "step h (KeyDown key) s = window_keydown key s"

text \<open>
  A page as the script finds it when it starts: nothing stored, nothing rendered, every
  element of the modal present and the modal hidden.
\<close>

definition fresh_page :: page where
  "fresh_page =
     \<lparr>allItems = [], gallery = [], dateSelector_options = [([], ''All dates'')],
      dateSelector_value = [], dateSelector_disabled = False,
      getImageBtn_disabled = False, getImageBtn_text = ''Get Space Images'',
      modal = Some (Some ''true''), modalMedia = Some [], modalTitle = Some [],
      modalDate = Some [], modalExplanation = Some [],
      modalCloseBtn = True, modalOverlay = True, activeElement = None, fetches = 0\<rparr>"


text \<open>
  A host whose helpers recognise no video URL, whose dates are left as they are, and
  whose collation compares character by character.
\<close>

definition plain_host :: host where
  "plain_host =
     \<lparr>toLocaleDateString = (\<lambda>s. s),
      localeCompare = codepoint_compare,
      getYouTubeThumbnail = (\<lambda>u. Inr None),
      getYouTubeEmbedUrl = (\<lambda>u. Inr None)\<rparr>"

text \<open>Every element that \<open>openModal\<close> writes to exists.\<close>

definition modal_ready :: "page \<Rightarrow> bool" where
  "modal_ready s =
     (modal s \<noteq> None \<and> modalMedia s \<noteq> None \<and> modalTitle s \<noteq> None
      \<and> modalDate s \<noteq> None \<and> modalExplanation s \<noteq> None)"

text \<open>The tags of the elements that the media area of the modal holds.\<close>

definition media_tags :: "page \<Rightarrow> string list" where
  "media_tags s = (case modalMedia s of None \<Rightarrow> [] | Some children \<Rightarrow> concat (map tags children))"

text \<open>
  The helpers return a value where \<open>openModal\<close> calls them for this record: it calls
  them for a video record only.
\<close>

definition helpers_return :: "host \<Rightarrow> apod_item \<Rightarrow> bool" where
  "helpers_return h item =
     (media_type item = Some ''video'' \<longrightarrow>
        (\<exists>src. thumbSrc h item = Inr src)
        \<and> (\<exists>embedUrl. getYouTubeEmbedUrl h (url item) = Inr embedUrl))"


subsection \<open>The helpers as the source files leave them\<close>

text \<open>
  Neither source file declares \<open>getYouTubeThumbnail\<close> or \<open>getYouTubeEmbedUrl\<close>, so the
  evaluation of a call of either throws a \<open>ReferenceError\<close>. \<open>script_host h\<close> is the host
  \<open>h\<close> with the two helpers in this state.
\<close>

definition undeclared :: "string option \<Rightarrow> error + string option" where
  "undeclared u = Inl ReferenceError"

definition script_host :: "host \<Rightarrow> host" where
  "script_host h = h\<lparr>getYouTubeThumbnail := undeclared, getYouTubeEmbedUrl := undeclared\<rparr>"

subsection \<open>The handlers around their await\<close>

text \<open>
  The click handler and \<open>loadDataAndPopulateDates\<close> suspend at
  \<^verbatim>\<open>await fetchCdnJson(apodData)\<close>, and other listeners run before they resume.
  \<open>click_begin\<close> is the click handler up to that point, or to its end when it does not
  fetch; the flag tells whether it awaits the fetch it has issued. \<open>click_resume\<close> is
  the rest of the handler, run on the page as it is when the fetch settles. \<open>load_begin\<close>
  and \<open>load_resume\<close> are the two parts of \<open>loadDataAndPopulateDates\<close>.
\<close>

definition click_finally :: "page \<Rightarrow> page" where
  "click_finally s =
     s\<lparr>getImageBtn_disabled := False, dateSelector_disabled := False,
       getImageBtn_text := ''Get Space Images''\<rparr>"

definition click_begin :: "host \<Rightarrow> page \<Rightarrow> bool \<times> page" where
  "click_begin h s =
     (let s1 = s\<lparr>getImageBtn_disabled := True, dateSelector_disabled := True,
                  getImageBtn_text := ''Loading...'', gallery := [loading_placeholder]\<rparr>
      in if allItems s1 = [] then (True, s1\<lparr>fetches := fetches s1 + 1\<rparr>)
         else (False, click_finally (show_selected h s1)))"

definition click_resume :: "host \<Rightarrow> net \<Rightarrow> page \<Rightarrow> page" where
  "click_resume h resp s =
     (case fetchCdnJson resp of
        Inl e \<Rightarrow> click_finally (s\<lparr>gallery := [error_placeholder]\<rparr>)
      | Inr data \<Rightarrow>
          click_finally (show_selected h (populateDateSelector h data (s\<lparr>allItems := data\<rparr>))))"

definition load_begin :: "page \<Rightarrow> page" where
  "load_begin s = s\<lparr>dateSelector_disabled := True, fetches := fetches s + 1\<rparr>"

definition load_resume :: "host \<Rightarrow> net \<Rightarrow> page \<Rightarrow> page" where
  "load_resume h resp s =
     (case fetchCdnJson resp of
        Inl e \<Rightarrow> s\<lparr>dateSelector_disabled := False\<rparr>
      | Inr data \<Rightarrow>
          (populateDateSelector h data (s\<lparr>allItems := data\<rparr>))\<lparr>dateSelector_disabled := False\<rparr>)"

subsection \<open>A page session with its pending fetches\<close>







subsection \<open>Sample records\<close>

definition item_jan :: apod_item where
  "item_jan =
     \<lparr>date = Some ''2021-01-01'', title = Some ''Nebula'', explanation = None,
      media_type = Some ''image'', url = Some ''http://x/a.png'',
      hdurl = Some ''http://x/a_hd.png'', thumbnail_url = Some ''http://x/t.png''\<rparr>"

definition item_mar :: apod_item where
  "item_mar =
     \<lparr>date = Some ''2021-03-05'', title = None, explanation = None,
      media_type = Some ''video'', url = Some ''http://v/1'', hdurl = None,
      thumbnail_url = None\<rparr>"

definition item_clip :: apod_item where
  "item_clip =
     \<lparr>date = Some ''2021-05-01'', title = Some ''Launch'', explanation = Some ''A launch.'',
      media_type = Some ''video'', url = Some ''https://www.youtube.com/embed/x'',
      hdurl = None, thumbnail_url = Some ''http://x/clip.jpg''\<rparr>"

definition item_bare :: apod_item where
  "item_bare =
     \<lparr>date = None, title = None, explanation = None, media_type = None,
      url = None, hdurl = None, thumbnail_url = None\<rparr>"

definition feed_of :: "apod_item list \<Rightarrow> net" where
  "feed_of items = Response 200 (Parsed (JArray items))"

text \<open>
  The page after the card of the sample video was clicked and, for an embed URL, its
  \<^verbatim>\<open>Play inline\<close> button: the modal is open and holds the player.
\<close>

definition playing_page :: page where
  "playing_page =
     step plain_host (ClickPlay ''https://www.youtube.com/embed/x'' item_mar)
       (step plain_host (ClickCard False item_mar) fresh_page)"

section \<open>The visible records\<close>

text \<open>
  C1. With the empty filter the visible records are the stored sequence itself. With a
  non-empty filter they are the records whose date is that very string, in the order of
  the stored sequence; when no record has that date the result is the empty sequence.
  The expression has no failing branch.
\<close>

theorem itemsToDisplay_spec:
  "itemsToDisplay [] items = items
   \<and> (d \<noteq> [] \<longrightarrow> itemsToDisplay d items = filter (\<lambda>item. date item = Some d) items)
   \<and> (d \<noteq> [] \<and> (\<forall>item \<in> set items. date item \<noteq> Some d) \<longrightarrow> itemsToDisplay d items = [])"
  by (simp add: itemsToDisplay_def filter_empty_conv)

theorem itemsToDisplay_spec_witness:
  "itemsToDisplay [] [item_jan, item_mar, item_jan] = [item_jan, item_mar, item_jan]
   \<and> itemsToDisplay ''2021-01-01'' [item_jan, item_mar, item_jan] = [item_jan, item_jan]
   \<and> itemsToDisplay ''2021-01'' [item_jan, item_mar, item_jan] = []"
  using itemsToDisplay_spec [of "[item_jan, item_mar, item_jan]" "''2021-01-01''"]
        itemsToDisplay_spec [of "[item_jan, item_mar, item_jan]" "''2021-01''"]
  by (simp add: item_jan_def item_mar_def)

section \<open>The dates of the selector\<close>

text \<open>
  The sort orders a list by any comparison that is total and transitive, so the dates
  of the selector are in descending order of any such collation. The comparison character
  by character is one.
\<close>

lemma codepoint_compare_flip: "codepoint_compare b a = - codepoint_compare a b"
  by (induction a b rule: codepoint_compare.induct) auto

lemma codepoint_compare_refl: "codepoint_compare a a = 0"
  by (induction a) auto

lemma codepoint_compare_eq: "codepoint_compare a b = 0 \<Longrightarrow> a = b"
  by (induction a b rule: codepoint_compare.induct) (auto split: if_splits)

lemma codepoint_compare_Cons_le:
  "codepoint_compare (x # xs) (y # ys) \<le> 0 \<longleftrightarrow>
     (of_char x :: nat) < of_char y
     \<or> ((of_char x :: nat) = of_char y \<and> codepoint_compare xs ys \<le> 0)"
  by (cases "(of_char x :: nat) < of_char y"; cases "(of_char y :: nat) < of_char x") auto

lemma codepoint_compare_trans:
  "codepoint_compare a b \<le> 0 \<Longrightarrow> codepoint_compare b c \<le> 0 \<Longrightarrow> codepoint_compare a c \<le> 0"
proof (induction a arbitrary: b c)
  case Nil
  then show ?case by (cases c) simp_all
next
  case (Cons x xs)
  from Cons.prems(1) obtain y ys where b: "b = y # ys"
    by (cases b) simp_all
  from Cons.prems(2) b obtain z zs where c: "c = z # zs"
    by (cases c) simp_all
  from Cons.prems b c
  have xy: "(of_char x :: nat) < of_char y
            \<or> ((of_char x :: nat) = of_char y \<and> codepoint_compare xs ys \<le> 0)"
   and yz: "(of_char y :: nat) < of_char z
            \<or> ((of_char y :: nat) = of_char z \<and> codepoint_compare ys zs \<le> 0)"
    by (simp_all only: codepoint_compare_Cons_le)
  then consider
      (less) "(of_char x :: nat) < of_char z"
    | (same) "(of_char x :: nat) = of_char z" "codepoint_compare xs ys \<le> 0" "codepoint_compare ys zs \<le> 0"
    by linarith
  then show ?case
  proof cases
    case less
    then show ?thesis unfolding c codepoint_compare_Cons_le by (rule disjI1)
  next
    case same
    from Cons.IH [OF same(2) same(3)] same(1) show ?thesis
      unfolding c codepoint_compare_Cons_le by (intro disjI2 conjI)
  qed
qed

lemma set_sort_insert: "set (sort_insert c a bs) = insert a (set bs)"
  by (induction bs) auto

lemma length_sort_insert: "length (sort_insert c a bs) = Suc (length bs)"
  by (induction bs) auto

lemma set_array_sort: "set (array_sort c xs) = set xs"
  by (induction xs) (auto simp: set_sort_insert)

lemma length_array_sort: "length (array_sort c xs) = length xs"
  by (induction xs) (auto simp: length_sort_insert)

lemma sorted_sort_insert:
  assumes total: "\<And>a b. 0 < c a b \<Longrightarrow> c b a \<le> 0"
      and trans: "\<And>a b d. c a b \<le> 0 \<Longrightarrow> c b d \<le> 0 \<Longrightarrow> c a d \<le> 0"
      and sorted: "sorted_wrt (\<lambda>a b. c a b \<le> 0) bs"
  shows "sorted_wrt (\<lambda>a b. c a b \<le> 0) (sort_insert c a bs)"
  using sorted
proof (induction bs)
  case Nil
  then show ?case by simp
next
  case (Cons b bs)
  show ?case
  proof (cases "0 < c a b")
    case True
    with Cons total [of a b] show ?thesis
      by (auto simp: set_sort_insert)
  next
    case False
    then have ab: "c a b \<le> 0" by simp
    have "c a d \<le> 0" if "d \<in> set bs" for d
      using that Cons.prems trans [OF ab, of d] by auto
    with False ab Cons.prems show ?thesis by auto
  qed
qed

lemma sorted_array_sort:
  assumes "\<And>a b. 0 < c a b \<Longrightarrow> c b a \<le> 0"
      and "\<And>a b d. c a b \<le> 0 \<Longrightarrow> c b d \<le> 0 \<Longrightarrow> c a d \<le> 0"
  shows "sorted_wrt (\<lambda>a b. c a b \<le> 0) (array_sort c xs)"
  by (induction xs) (auto intro: sorted_sort_insert assms)

lemma dates_sorted_descending:
  assumes "\<And>a b. 0 < localeCompare h b a \<Longrightarrow> localeCompare h a b \<le> 0"
      and "\<And>a b d. localeCompare h b a \<le> 0 \<Longrightarrow> localeCompare h d b \<le> 0
             \<Longrightarrow> localeCompare h d a \<le> 0"
  shows "sorted_wrt (\<lambda>a b. localeCompare h b a \<le> 0) (dates h items)"
  unfolding dates_def
  by (rule sorted_array_sort [where c = "\<lambda>a b. localeCompare h b a"]) (blast intro: assms)+

lemma dates_sorted_descending_plain:
  "sorted_wrt (\<lambda>a b. codepoint_compare b a \<le> 0) (dates plain_host items)"
proof -
  have c: "localeCompare plain_host = codepoint_compare"
    by (simp add: plain_host_def)
  show ?thesis
  proof (rule dates_sorted_descending [of plain_host, unfolded c])
    fix a b
    show "0 < codepoint_compare b a \<Longrightarrow> codepoint_compare a b \<le> 0"
      using codepoint_compare_flip [of a b] by simp
  next
    fix a b d
    show "codepoint_compare b a \<le> 0 \<Longrightarrow> codepoint_compare d b \<le> 0
            \<Longrightarrow> codepoint_compare d a \<le> 0"
      using codepoint_compare_trans [of d b a] by simp
  qed
qed

lemma length_truthy_strings: "length (truthy_strings vs) = length (filter truthy vs)"
  by (induction vs rule: truthy_strings.induct) auto

lemma dates_length:
  "length (dates h items) = length (filter (\<lambda>item. truthy (date item)) items)"
  by (simp add: dates_def length_array_sort length_truthy_strings filter_map comp_def)

lemma set_truthy_strings: "set (truthy_strings vs) = {s. Some s \<in> set vs \<and> s \<noteq> []}"
  by (induction vs rule: truthy_strings.induct) auto

text \<open>Whatever the collation, the repeated date is offered twice.\<close>

lemma repeated_date_any_collation:
  "\<not> distinct (availableDates (populateDateSelector h [item_jan, item_mar, item_jan] s))"
proof
  let ?ds = "dates h [item_jan, item_mar, item_jan]"
  assume "distinct (availableDates (populateDateSelector h [item_jan, item_mar, item_jan] s))"
  then have d: "distinct ?ds"
    by (simp add: availableDates_def populateDateSelector_def comp_def)
  have "length ?ds = 3"
    by (simp add: dates_length item_jan_def item_mar_def)
  with d have c: "card (set ?ds) = 3"
    by (simp add: distinct_card)
  have "set ?ds = {''2021-01-01'', ''2021-03-05''}"
    by (auto simp: dates_def set_array_sort set_truthy_strings item_jan_def item_mar_def)
  then have "card (set ?ds) \<le> 2"
    by (simp add: card_insert_if)
  with c show False by simp
qed

text \<open>
  C2. The selector is to offer every non-empty date once, in descending order. The
  options are in descending order of the collation (\<open>dates_sorted_descending\<close>) and are as many as the
  records that have a date (\<open>dates_length\<close>): no step removes a repeated date, although
  the comment in \<open>populateDateSelector\<close> reads \<^verbatim>\<open>Get all unique dates from the items\<close>.
  For records dated 2021-01-01, 2021-03-05 and 2021-01-01 the selector offers
  2021-01-01 twice, under every collation (\<open>repeated_date_any_collation\<close>); with the
  sample host the options are as follows.
\<close>

theorem populateDateSelector_repeats_dates:
  "availableDates (populateDateSelector plain_host [item_jan, item_mar, item_jan] fresh_page)
     = [''2021-03-05'', ''2021-01-01'', ''2021-01-01'']
   \<and> \<not> distinct
         (availableDates (populateDateSelector plain_host [item_jan, item_mar, item_jan] fresh_page))"
  by (simp add: availableDates_def populateDateSelector_def dates_def item_jan_def item_mar_def
        plain_host_def)

section \<open>The media of a card\<close>

text \<open>
  C7. A record of media type \<^verbatim>\<open>image\<close> with a url (a non-empty string, as the script
  tests it) gets the inline image with that url as source, whatever its
  \<open>thumbnail_url\<close>, and its card holds no link, in both variants. The tests are made in
  order: only a record that fails the first one gets the linked thumbnail (url and
  thumbnail), the link \<^verbatim>\<open>Open\<close> (url alone), or no media element (no url).
\<close>

theorem card_image_first:
  "(media_type r = Some ''image'' \<and> url r = Some u \<and> u \<noteq> [] \<longrightarrow>
      createGalleryItem h r =
        El ''div'' (wrapper_props r)
          [El ''img'' [(''src'', u), (''alt'', card_title r), (''loading'', ''lazy'')] [],
           El ''h3'' [(''className'', ''gallery-item-title'')] [Text (card_title r)],
           El ''p'' [(''className'', ''gallery-item-date'')]
             (text_children (formatDate h (date r)))]
      \<and> createGalleryItem0 r =
        El ''div'' (wrapper_props r)
          [El ''img'' [(''src'', u), (''alt'', card_title r), (''loading'', ''lazy'')] [],
           El ''p'' []
             [Text (card_title r @ '' '' @ emdash @ '' ''
                    @ (if truthy (date r) then js_string (date r) else []))]]
      \<and> ''a'' \<notin> set (tags (createGalleryItem h r))
      \<and> ''a'' \<notin> set (tags (createGalleryItem0 r)))
   \<and> (media_type r \<noteq> Some ''image'' \<and> url r = Some u \<and> u \<noteq> []
        \<and> thumbnail_url r = Some t \<and> t \<noteq> [] \<longrightarrow>
        card_media r =
          [El ''a'' [(''href'', u), (''target'', ''_blank''), (''rel'', ''noopener noreferrer'')]
             [El ''img'' [(''src'', t), (''alt'', card_title r), (''loading'', ''lazy'')] []]])
   \<and> (media_type r \<noteq> Some ''image'' \<and> url r = Some u \<and> u \<noteq> []
        \<and> \<not> truthy (thumbnail_url r) \<longrightarrow>
        card_media r =
          [El ''a'' [(''href'', u), (''target'', ''_blank''), (''rel'', ''noopener noreferrer'')]
             [El ''span'' [] [Text ''Open'']]])
   \<and> (\<not> truthy (url r) \<longrightarrow> card_media r = [])"
  by (simp add: createGalleryItem_def createGalleryItem0_def card_media_def lazy_img_def
        blank_link_def text_children_def)

theorem card_image_first_witness:
  "createGalleryItem plain_host item_jan =
     El ''div'' (wrapper_props item_jan)
       [El ''img'' [(''src'', ''http://x/a.png''), (''alt'', ''Nebula''), (''loading'', ''lazy'')] [],
        El ''h3'' [(''className'', ''gallery-item-title'')] [Text ''Nebula''],
        El ''p'' [(''className'', ''gallery-item-date'')] [Text ''2021-01-01T00:00:00'']]
   \<and> ''a'' \<notin> set (tags (createGalleryItem0 item_jan))
   \<and> card_media (item_jan\<lparr>media_type := Some ''video''\<rparr>) =
       [El ''a'' [(''href'', ''http://x/a.png''), (''target'', ''_blank''),
                  (''rel'', ''noopener noreferrer'')]
          [El ''img'' [(''src'', ''http://x/t.png''), (''alt'', ''Nebula''), (''loading'', ''lazy'')] []]]
   \<and> card_media item_mar =
       [El ''a'' [(''href'', ''http://v/1''), (''target'', ''_blank''),
                  (''rel'', ''noopener noreferrer'')]
          [El ''span'' [] [Text ''Open'']]]
   \<and> card_media item_bare = []"
  using card_image_first [of item_jan "''http://x/a.png''" plain_host]
        card_image_first [of "item_jan\<lparr>media_type := Some ''video''\<rparr>" "''http://x/a.png''"
                            plain_host "''http://x/t.png''"]
        card_image_first [of item_mar "''http://v/1''"]
        card_image_first [of item_bare]
  by (simp add: item_jan_def item_mar_def item_bare_def card_title_def text_children_def
        plain_host_def)

section \<open>What the modal shows\<close>

lemmas modal_defs =
  openModal_def seq_def skip_def throw_def set_modalMedia_innerHTML_empty_def
  modalMedia_appendChild_def set_modalTitle_def set_modalDate_def set_modalExplanation_def
  set_aria_hidden_def focus_modalCloseBtn_def modal_media_def video_media_def

text \<open>
  C8. On a page whose modal elements exist, the modal of an image record shows one
  image: its source is \<open>hdurl\<close> when the record has one, \<open>url\<close> when it has only
  that, and the media area stays empty when it has neither.
\<close>

theorem modal_image_source:
  assumes "modal_ready s" and "media_type r = Some ''image''"
  shows "fst (openModal h r s) = None
         \<and> (truthy (hdurl r) \<longrightarrow>
              modalMedia (snd (openModal h r s)) =
                Some [El ''img'' [(''src'', js_string (hdurl r)),
                                  (''alt'', js_string (js_or (title r) (Some ''Image''))),
                                  (''loading'', ''lazy'')] []])
         \<and> (\<not> truthy (hdurl r) \<and> truthy (url r) \<longrightarrow>
              modalMedia (snd (openModal h r s)) =
                Some [El ''img'' [(''src'', js_string (url r)),
                                  (''alt'', js_string (js_or (title r) (Some ''Image''))),
                                  (''loading'', ''lazy'')] []])
         \<and> (\<not> truthy (hdurl r) \<and> \<not> truthy (url r) \<longrightarrow>
              modalMedia (snd (openModal h r s)) = Some [])"
  using assms
  by (auto simp: modal_defs modal_ready_def js_or_def lazy_img_def)

theorem modal_image_source_witness:
  "modalMedia (snd (openModal plain_host item_jan fresh_page)) =
     Some [El ''img'' [(''src'', ''http://x/a_hd.png''), (''alt'', ''Nebula''),
                       (''loading'', ''lazy'')] []]
   \<and> modalMedia (snd (openModal plain_host (item_jan\<lparr>hdurl := None\<rparr>) fresh_page)) =
     Some [El ''img'' [(''src'', ''http://x/a.png''), (''alt'', ''Nebula''),
                       (''loading'', ''lazy'')] []]
   \<and> modalMedia (snd (openModal plain_host (item_jan\<lparr>hdurl := None, url := None\<rparr>) fresh_page)) =
     Some []"
  using modal_image_source [of fresh_page item_jan plain_host]
        modal_image_source [of fresh_page "item_jan\<lparr>hdurl := None\<rparr>" plain_host]
        modal_image_source [of fresh_page "item_jan\<lparr>hdurl := None, url := None\<rparr>" plain_host]
  by (simp add: item_jan_def fresh_page_def modal_ready_def js_or_def)

text \<open>
  With helpers that return a falsy value for the url, the video branch shows the message
  that no thumbnail is available and the controls, which then consist of the link
  \<^verbatim>\<open>Open video in new tab\<close> alone.
\<close>

lemma video_branch_with_helpers:
  assumes "modal_ready s" and "media_type r = Some ''video''"
      and "\<not> truthy (thumbnail_url r)"
      and "getYouTubeThumbnail h (url r) = Inr t" and "\<not> truthy t"
      and "getYouTubeEmbedUrl h (url r) = Inr e" and "\<not> truthy e"
  shows "fst (openModal h r s) = None
         \<and> modal (snd (openModal h r s)) = Some (Some ''false'')
         \<and> modalMedia (snd (openModal h r s)) =
             Some [El ''p'' [] [Text ''Video (no thumbnail available).''],
                   El ''div'' [(''style.marginTop'', ''10px'')]
                     [El ''a'' [(''href'', js_string (url r)), (''target'', ''_blank''),
                                (''rel'', ''noopener noreferrer''),
                                (''className'', ''video-open-link'')]
                        [Text ''Open video in new tab'']]]
         \<and> ''button'' \<notin> set (media_tags (snd (openModal h r s)))"
  using assms
  by (cases "modalCloseBtn s")
     (auto simp: modal_defs modal_ready_def thumbSrc_def no_thumbnail_message_def
        controls_def openLink_def blank_link_def media_tags_def)

section \<open>Opening the modal with helpers that return\<close>

lemma openModal_no_modal: "modal s = None \<Longrightarrow> openModal h r s = (None, s)"
  by (simp add: openModal_def)

lemma openModal_completes:
  assumes "modal_ready s" and "helpers_return h r"
  shows "fst (openModal h r s) = None
         \<and> modal (snd (openModal h r s)) = Some (Some ''false'')
         \<and> modalTitle (snd (openModal h r s)) = Some (js_string (js_or (title r) (Some ''Untitled'')))
         \<and> modalDate (snd (openModal h r s)) = Some (formatDate h (date r))
         \<and> modalExplanation (snd (openModal h r s)) = Some (js_string (js_or (explanation r) (Some [])))"
proof (cases "media_type r = Some ''video''")
  case True
  with assms(2) obtain src embedUrl
    where "thumbSrc h r = Inr src" "getYouTubeEmbedUrl h (url r) = Inr embedUrl"
    by (auto simp: helpers_return_def)
  with True assms(1) show ?thesis
    by (cases "modalCloseBtn s") (auto simp: modal_defs modal_ready_def)
next
  case False
  with assms(1) show ?thesis
    by (cases "modalCloseBtn s") (auto simp: modal_defs modal_ready_def)
qed

lemma openModal_no_media:
  assumes "modal_ready s" and "media_type r \<noteq> Some ''video''"
      and "\<not> truthy (url r)" and "\<not> truthy (hdurl r)"
  shows "modalMedia (snd (openModal h r s)) = Some []"
  using assms
  by (cases "modalCloseBtn s") (auto simp: modal_defs modal_ready_def)

lemma createGalleryItem_defaults:
  "\<exists>media. createGalleryItem h r =
      El ''div'' (wrapper_props r)
        (media
         @ [El ''h3'' [(''className'', ''gallery-item-title'')]
              [Text (if truthy (title r) then js_string (title r) else ''Untitled'')],
            El ''p'' [(''className'', ''gallery-item-date'')]
              (text_children (formatDate h (date r)))])
      \<and> length media \<le> 1 \<and> (\<not> truthy (url r) \<longrightarrow> media = [])"
  by (simp add: createGalleryItem_def card_title_def card_media_def)

lemma openModal_other_completes:
  assumes "modal_ready s" and "media_type r \<noteq> Some ''video''"
  shows "fst (openModal h r s) = None \<and> modal (snd (openModal h r s)) = Some (Some ''false'')"
  using assms openModal_completes [of s h r] by (simp add: helpers_return_def)

text \<open>
  A helper that throws ends \<open>openModal\<close> before the modal is shown.
\<close>

lemma openModal_helper_throws:
  assumes "modal_ready s" and "media_type r = Some ''video''"
      and "thumbSrc h r = Inr src" and "getYouTubeEmbedUrl h (url r) = Inl e"
  shows "fst (openModal h r s) = Some e \<and> modal (snd (openModal h r s)) = modal s"
  using assms by (auto simp: modal_defs modal_ready_def)

section \<open>Video records and the undeclared helpers\<close>

lemma openModal_video_throws:
  assumes "modal_ready s" and "media_type r = Some ''video''"
  shows "fst (openModal (script_host h) r s) = Some ReferenceError
         \<and> modal (snd (openModal (script_host h) r s)) = modal s"
  using assms
  by (auto simp: modal_defs modal_ready_def thumbSrc_def script_host_def undeclared_def)

text \<open>
  C3. Building the card and opening the modal are not to throw, whatever fields a record
  lacks. The card is built for every record (\<open>createGalleryItem_defaults\<close>) and the modal
  opens for every record that is not a video (\<open>openModal_other_completes\<close>). For a video
  record \<open>openModal\<close> calls helpers that are declared nowhere: it ends with a
  \<open>ReferenceError\<close> and the modal stays hidden, for the video record that lacks every
  optional field as for one that has them all.
\<close>

theorem modal_throws_on_video:
  "fst (openModal (script_host plain_host) (item_bare\<lparr>media_type := Some ''video''\<rparr>) fresh_page)
     = Some ReferenceError
   \<and> modal (snd (openModal (script_host plain_host) (item_bare\<lparr>media_type := Some ''video''\<rparr>)
                  fresh_page)) = Some (Some ''true'')
   \<and> fst (openModal (script_host plain_host) item_clip fresh_page) = Some ReferenceError
   \<and> modal (snd (openModal (script_host plain_host) item_clip fresh_page)) = Some (Some ''true'')
   \<and> modalMedia (snd (openModal (script_host plain_host) item_clip fresh_page))
       = Some [El ''img'' [(''src'', ''http://x/clip.jpg''),
                           (''alt'', ''Launch (video thumbnail)''), (''loading'', ''lazy'')] []]"
  by (simp add: modal_defs thumbSrc_def script_host_def undeclared_def plain_host_def
        item_bare_def item_clip_def fresh_page_def video_thumb_def lazy_img_def)

text \<open>
  C4. A video record with an unrecognised url and no \<open>thumbnail_url\<close> is to show the
  message that no thumbnail is available and the link that opens the video, without a
  \<^verbatim>\<open>Play inline\<close> button; the video branch is written to do so
  (\<open>video_branch_with_helpers\<close>). As the source files stand, the call of
  \<open>getYouTubeThumbnail\<close> throws a \<open>ReferenceError\<close> before anything is appended: title,
  date and explanation are set, the media area holds neither message nor link, and the
  modal stays hidden.
\<close>

theorem modal_video_unrecognized_throws:
  "openModal (script_host plain_host) item_mar fresh_page
     = (Some ReferenceError,
        fresh_page\<lparr>modalTitle := Some ''Untitled'', modalDate := Some ''2021-03-05T00:00:00'',
                    modalExplanation := Some []\<rparr>)
   \<and> media_tags (snd (openModal (script_host plain_host) item_mar fresh_page)) = []
   \<and> modal (snd (openModal (script_host plain_host) item_mar fresh_page)) = Some (Some ''true'')"
  by (simp add: modal_defs thumbSrc_def script_host_def undeclared_def plain_host_def
        item_mar_def fresh_page_def media_tags_def js_or_def)

section \<open>Closing the modal\<close>

text \<open>
  C9. While the modal is open, the Escape key, a click on the overlay and a click on the
  close control all do what \<open>closeModal\<close> does: the modal is marked hidden and its
  media area emptied, which removes a running player; no other part of the page changes.
\<close>

theorem close_routes_agree:
  assumes "modal s = Some (Some ''false'')" and "modalCloseBtn s" and "modalOverlay s"
  shows "window_keydown ''Escape'' s = closeModal s
         \<and> modalOverlay_click s = closeModal s
         \<and> modalCloseBtn_click s = closeModal s
         \<and> closeModal s =
             s\<lparr>modal := Some (Some ''true''),
               modalMedia := (case modalMedia s of None \<Rightarrow> None | Some children \<Rightarrow> Some [])\<rparr>"
  using assms
  by (auto simp: window_keydown_def modalOverlay_click_def modalCloseBtn_click_def
        closeModal_def Let_def split: option.splits)

theorem close_routes_agree_witness:
  "modal playing_page = Some (Some ''false'')
   \<and> modalMedia playing_page = Some [video_embed ''https://www.youtube.com/embed/x'' item_mar]
   \<and> window_keydown ''Escape'' playing_page = modalOverlay_click playing_page
   \<and> modalOverlay_click playing_page = modalCloseBtn_click playing_page
   \<and> modalCloseBtn_click playing_page
       = playing_page\<lparr>modal := Some (Some ''true''), modalMedia := Some []\<rparr>"
proof -
  have m: "modal playing_page = Some (Some ''false'')"
    and mm: "modalMedia playing_page = Some [video_embed ''https://www.youtube.com/embed/x'' item_mar]"
    and c: "modalCloseBtn playing_page" and ov: "modalOverlay playing_page"
    by (simp_all add: playing_page_def wrapper_click_def playBtn_click_def modal_defs
          thumbSrc_def fresh_page_def plain_host_def item_mar_def)
  from close_routes_agree [OF m c ov] m mm show ?thesis by simp
qed

section \<open>The selector before any load\<close>

text \<open>
  C10. While no records are stored, the change listener of the selector does nothing:
  after the event the page differs from the page before in the value of the selector
  only; nothing is fetched and the gallery is as it was.
\<close>

theorem change_before_load_is_noop:
  assumes "allItems s = []"
  shows "dateSelector_change h s = s
         \<and> step h (SelectDate d) s = s\<lparr>dateSelector_value := d\<rparr>
         \<and> fetches (step h (SelectDate d) s) = fetches s
         \<and> gallery (step h (SelectDate d) s) = gallery s"
  using assms by (simp add: dateSelector_change_def)

theorem change_before_load_is_noop_witness:
  "allItems fresh_page = []
   \<and> step plain_host (SelectDate ''2021-01-01'') fresh_page
       = fresh_page\<lparr>dateSelector_value := ''2021-01-01''\<rparr>"
  using change_before_load_is_noop [of fresh_page plain_host "''2021-01-01''"]
  by (simp add: fresh_page_def)

section \<open>Load failures\<close>

text \<open>
  C6, as stated, names three causes of a failed load. There is a fourth: when the request
  itself is rejected there is no response, none of the three conditions holds, and the
  load fails all the same.
\<close>

theorem load_failure_without_response:
  "fetchCdnJson Rejected = Inl FetchRejected
   \<and> \<not> (status_not_2xx Rejected \<or> body_not_parseable Rejected \<or> top_level_not_sequence Rejected)"
  by simp

lemma fetchCdnJson_fails_iff:
  "(\<exists>e. fetchCdnJson resp = Inl e) \<longleftrightarrow>
     resp = Rejected \<or> status_not_2xx resp \<or> body_not_parseable resp
     \<or> top_level_not_sequence resp"
proof (cases resp)
  case Rejected
  then show ?thesis by simp
next
  case (Response status b)
  show ?thesis
  proof (cases b)
    case Unparseable
    with Response show ?thesis by (simp add: ok_def)
  next
    case (Parsed j)
    with Response show ?thesis by (cases j) (auto simp: ok_def)
  qed
qed

lemma click_failed_load:
  assumes "fetchCdnJson resp = Inl e"
  shows "allItems (getImageBtn_click h resp s) = allItems s
         \<and> \<not> getImageBtn_disabled (getImageBtn_click h resp s)
         \<and> \<not> dateSelector_disabled (getImageBtn_click h resp s)
         \<and> getImageBtn_text (getImageBtn_click h resp s) = ''Get Space Images''
         \<and> (allItems s = [] \<longrightarrow>
              gallery (getImageBtn_click h resp s) = [error_placeholder]
              \<and> fetches (getImageBtn_click h resp s) = fetches s + 1)"
  using assms
  by (simp add: getImageBtn_click_def click_try_def show_selected_def renderGallery_def Let_def)

text \<open>
  C6, amended. The load fails exactly when the request is rejected, the status is not
  2xx, the body does not parse, or the parsed value is not an array. When a load started
  by the fetch button fails, the stored records are unchanged, the gallery shows the
  error placeholder, and the button is enabled again under its usual label.
\<close>

theorem load_failure_cases:
  "((\<exists>e. fetchCdnJson resp = Inl e) \<longleftrightarrow>
      resp = Rejected \<or> status_not_2xx resp \<or> body_not_parseable resp
      \<or> top_level_not_sequence resp)
   \<and> (allItems s = [] \<and> (\<exists>e. fetchCdnJson resp = Inl e) \<longrightarrow>
        allItems (getImageBtn_click h resp s) = allItems s
        \<and> gallery (getImageBtn_click h resp s) = [error_placeholder]
        \<and> \<not> getImageBtn_disabled (getImageBtn_click h resp s)
        \<and> getImageBtn_text (getImageBtn_click h resp s) = ''Get Space Images'')"
  using fetchCdnJson_fails_iff [of resp] click_failed_load [of resp _ h s] by blast

theorem load_failure_cases_witness:
  "fetchCdnJson (Response 404 (Parsed (JArray [item_jan]))) = Inl (NetworkError 404)
   \<and> fetchCdnJson (Response 200 Unparseable) = Inl ParseError
   \<and> fetchCdnJson (Response 200 (Parsed JOther)) = Inl NotAnArray
   \<and> fetchCdnJson (feed_of [item_jan]) = Inr [item_jan]
   \<and> gallery (getImageBtn_click plain_host (Response 404 (Parsed (JArray [item_jan]))) fresh_page)
       = [error_placeholder]
   \<and> allItems (getImageBtn_click plain_host (Response 404 (Parsed (JArray [item_jan]))) fresh_page)
       = []"
  using load_failure_cases [of "Response 404 (Parsed (JArray [item_jan]))" fresh_page plain_host]
  by (simp add: ok_def feed_of_def fresh_page_def)

section \<open>Fetching and the stored records\<close>












text \<open>The handlers of the atomic events are the two parts run one after the other.\<close>

lemma getImageBtn_click_parts:
  "getImageBtn_click h resp s =
     (if fst (click_begin h s) then click_resume h resp (snd (click_begin h s))
      else snd (click_begin h s))"
  by (simp add: getImageBtn_click_def click_try_def click_begin_def click_resume_def
        click_finally_def show_selected_def renderGallery_def populateDateSelector_def Let_def
        split: sum.splits)

lemma loadDataAndPopulateDates_parts:
  "loadDataAndPopulateDates h resp s = load_resume h resp (load_begin s)"
  by (simp add: loadDataAndPopulateDates_def load_resume_def load_begin_def Let_def)











end
